theory Spec2Isabelle
  imports Main "HOL-Library.Sublist"
begin

section \<open>The python namespace plugin of src/index.ts\<close>

text \<open>
  The plugin registers two callbacks with the host's plugin builder, both under the
  namespace \<open>python\<close> and the filter \<open>/.*/\<close>: \<open>onResolve\<close> hands the path back with
  the namespace attached, \<open>onLoad\<close> builds the text of a small module around
  \<open>path.replace(/^python:/, "")\<close>.  Strings are character lists; the two regular
  expressions of the file are interpreted by a backtracking matcher for the fragment
  of the regular expression syntax that they use.
\<close>

subsection \<open>Regular expressions: the fragment used by the plugin\<close>

text \<open>
  \<open>Bol\<close> is the assertion \<open>^\<close> (no \<open>m\<close> flag: start of input only), \<open>Lit c\<close> a literal
  character, \<open>Dot_star\<close> the greedy \<open>.*\<close>, where \<open>.\<close> matches everything but a line
  terminator.  Characters are bytes here, so the line terminators are line feed and
  carriage return; the two line separators beyond the Latin range have no counterpart.
\<close>

datatype re_atom = Bol | Lit char | Dot_star

type_synonym regex = "re_atom list"

definition is_line_terminator :: "char \<Rightarrow> bool" where
  "is_line_terminator c = (c = CHR 0x0A \<or> c = CHR 0x0D)"

text \<open>
  \<open>re_match r b s\<close> matches \<open>r\<close> against the front of \<open>s\<close>; \<open>b\<close> says whether \<open>s\<close> begins at
  index 0 of the input.  The result is what is left of \<open>s\<close> after the match.
\<close>

fun re_match :: "regex \<Rightarrow> bool \<Rightarrow> string \<Rightarrow> string option" where
  "re_match [] b s = Some s"
| "re_match (Bol # r) b s = (if b then re_match r b s else None)"
| "re_match (Lit c # r) b [] = None"
| "re_match (Lit c # r) b (x # xs) = (if x = c then re_match r False xs else None)"
| "re_match (Dot_star # r) b [] = re_match r b []"
| "re_match (Dot_star # r) b (x # xs) =
     (if is_line_terminator x then re_match r b (x # xs)
      else (case re_match (Dot_star # r) False xs of
              Some t \<Rightarrow> Some t
            | None \<Rightarrow> re_match r b (x # xs)))"

text \<open>
  The search of a regular expression without the \<open>g\<close> and \<open>y\<close> flags: try every start
  index from 0 upwards, the first match wins.  The result is the text before the match
  and the text after it.
\<close>

fun re_search :: "regex \<Rightarrow> bool \<Rightarrow> string \<Rightarrow> (string \<times> string) option" where
  "re_search r b [] = (case re_match r b [] of Some t \<Rightarrow> Some ([], t) | None \<Rightarrow> None)"
| "re_search r b (x # xs) =
     (case re_match r b (x # xs) of
        Some t \<Rightarrow> Some ([], t)
      | None \<Rightarrow> (case re_search r False xs of
                  Some (pre, post) \<Rightarrow> Some (x # pre, post)
                | None \<Rightarrow> None))"

text \<open>\<open>re.test(s)\<close>.\<close>

definition re_test :: "regex \<Rightarrow> string \<Rightarrow> bool" where
  "re_test r s = (re_search r True s \<noteq> None)"

text \<open>
  \<open>s.replace(re, rep)\<close> for a regular expression without the \<open>g\<close> flag and a replacement
  string without \<open>$\<close>: the first match is replaced, a string without match is returned
  as it is.
\<close>

definition replace :: "string \<Rightarrow> regex \<Rightarrow> string \<Rightarrow> string" where
  "replace s r rep = (case re_search r True s of
                        Some (pre, post) \<Rightarrow> pre @ rep @ post
                      | None \<Rightarrow> s)"

text \<open>The two regular expressions of the file: \<open>/.*/\<close> and \<open>/^python:/\<close>.\<close>

definition any_path_re :: regex where
  "any_path_re = [Dot_star]"

definition python_prefix_re :: regex where
  "python_prefix_re = Bol # map Lit ''python:''"

subsection \<open>The callbacks\<close>

text \<open>
  The host passes an object of which the callbacks read the field \<open>path\<close> only; the
  record is extensible, the other fields of the host's object are its extension.
\<close>

record hook_args =
  path :: string

record on_resolve_result =
  res_path :: string
  namespace :: string

record on_load_result =
  contents :: string
  loader :: string

definition onResolve :: "'a hook_args_scheme \<Rightarrow> on_resolve_result" where
  "onResolve args = \<lparr> res_path = path args, namespace = ''python'' \<rparr>"

text \<open>The argument of the bind call: \<open>path.replace(/^python:/, "")\<close>.\<close>

definition bind_arg :: "string \<Rightarrow> string" where
  "bind_arg p = replace p python_prefix_re []"

text \<open>
  The template literal, with its line breaks and indentation, split at the
  interpolation.
\<close>

definition template_head :: string where
  "template_head =
     ''\<newline>          import { pymport, proxify } from 'pymport';\<newline>\<newline>          const module = pymport(''
     @ [CHR 0x27]"

definition template_tail :: string where
  "template_tail =
     [CHR 0x27] @ '');\<newline>          export default proxify(module);\<newline>        ''"

definition onLoad :: "'a hook_args_scheme \<Rightarrow> on_load_result" where
  "onLoad args =
     \<lparr> contents = template_head @ bind_arg (path args) @ template_tail,
       loader = ''js'' \<rparr>"

subsection \<open>Registration\<close>

text \<open>
  \<open>setup_cb\<close> (the method \<open>setup\<close> of the plugin object) receives the host's builder and registers the two callbacks; the builder is
  modelled by the lists of what has been registered with it.
\<close>

record hook_constraints =
  filter_re :: regex
  hook_namespace :: string

record builder =
  resolve_hooks :: "(hook_constraints \<times> (hook_args \<Rightarrow> on_resolve_result)) list"
  load_hooks :: "(hook_constraints \<times> (hook_args \<Rightarrow> on_load_result)) list"

definition build_onResolve ::
  "hook_constraints \<Rightarrow> (hook_args \<Rightarrow> on_resolve_result) \<Rightarrow> builder \<Rightarrow> builder" where
  "build_onResolve c cb build = build \<lparr> resolve_hooks := resolve_hooks build @ [(c, cb)] \<rparr>"

definition build_onLoad ::
  "hook_constraints \<Rightarrow> (hook_args \<Rightarrow> on_load_result) \<Rightarrow> builder \<Rightarrow> builder" where
  "build_onLoad c cb build = build \<lparr> load_hooks := load_hooks build @ [(c, cb)] \<rparr>"

definition setup_cb :: "builder \<Rightarrow> builder" where
  "setup_cb build =
     build_onLoad \<lparr> filter_re = any_path_re, hook_namespace = ''python'' \<rparr> onLoad
       (build_onResolve \<lparr> filter_re = any_path_re, hook_namespace = ''python'' \<rparr> onResolve
          build)"

record bun_plugin =
  name :: string
  plugin_setup :: "builder \<Rightarrow> builder"

definition PythonBunPlugin :: bun_plugin where
  "PythonBunPlugin = \<lparr> name = ''Python Bun Plugin'', plugin_setup = setup_cb \<rparr>"

subsection \<open>Reading the generated text\<close>

text \<open>
  The pieces of the generated module that the properties below look for: the import
  statement, the bind call around a module name, and the default export statement.
\<close>

definition import_stmt :: string where
  "import_stmt = ''import { pymport, proxify } from 'pymport';''"

definition bind_call :: "string \<Rightarrow> string" where
  "bind_call m = ''pymport('' @ [CHR 0x27] @ m @ [CHR 0x27] @ '')''"

definition default_export_stmt :: string where
  "default_export_stmt = ''export default proxify(module);''"

text \<open>
  A scanner for the host's module syntax, as far as the template uses it: it tracks
  single-quoted string literals (with backslash escapes; a line terminator inside a
  literal is a lexical error, as is the end of the text) and counts the places outside
  of literals where the word \<open>export\<close> begins.  Each export statement of a text in
  which the only literals are single-quoted strings is counted, so the count bounds the
  number of exports from above.  \<open>None\<close> is the lexical error.
\<close>

datatype lex_state = In_code | In_string | In_escape

fun count_exports :: "lex_state \<Rightarrow> string \<Rightarrow> nat option" where
  "count_exports In_code [] = Some 0"
| "count_exports In_string [] = None"
| "count_exports In_escape [] = None"
| "count_exports In_code (c # cs) =
     (if c = CHR 0x27 then count_exports In_string cs
      else if prefix ''export'' (c # cs) then map_option Suc (count_exports In_code cs)
      else count_exports In_code cs)"
| "count_exports In_string (c # cs) =
     (if c = CHR 0x27 then count_exports In_code cs
      else if c = CHR 0x5C then count_exports In_escape cs
      else if is_line_terminator c then None
      else count_exports In_string cs)"
| "count_exports In_escape (c # cs) = count_exports In_string cs"

definition export_count :: "string \<Rightarrow> nat option" where
  "export_count text = count_exports In_code text"


text \<open>
  A module name that cannot leave the string literal it is put into: no quote, no
  backslash, no line terminator.
\<close>

definition literal_safe :: "string \<Rightarrow> bool" where
  "literal_safe m =
     list_all (\<lambda>c. c \<noteq> CHR 0x27 \<and> c \<noteq> CHR 0x5C \<and> \<not> is_line_terminator c) m"

text \<open>The host's loader tags for data assets, as opposed to script.\<close>

definition data_loaders :: "string list" where
  "data_loaders = [''json'', ''toml'', ''text'', ''file'']"

text \<open>Lower case of the ASCII letters, to compare tags up to letter case.\<close>

definition ascii_lower :: "char \<Rightarrow> char" where
  "ascii_lower c =
     (case map_of (zip ''ABCDEFGHIJKLMNOPQRSTUVWXYZ'' ''abcdefghijklmnopqrstuvwxyz'') c of
        Some d \<Rightarrow> d
      | None \<Rightarrow> c)"

section \<open>Properties of the matcher\<close>

lemma re_match_lits:
  "re_match (map Lit p) b s = (if prefix p s then Some (drop (length p) s) else None)"
proof (induction p arbitrary: b s)
  case Nil
  show ?case by simp
next
  case (Cons c p)
  show ?case
  proof (cases s)
    case Nil
    then show ?thesis by simp
  next
    case (Cons x xs)
    then show ?thesis using Cons.IH [of False xs] by simp
  qed
qed

lemma re_search_bol_later: "re_search (Bol # r) False s = None"
  by (induction s) simp_all

lemma re_search_anchored:
  "re_search (Bol # map Lit p) True s =
     (if prefix p s then Some ([], drop (length p) s) else None)"
proof (cases s)
  case Nil
  then show ?thesis by (simp add: re_match_lits)
next
  case (Cons x xs)
  then show ?thesis by (simp add: re_match_lits re_search_bol_later)
qed

lemma replace_anchored:
  "replace s (Bol # map Lit p) rep = (if prefix p s then rep @ drop (length p) s else s)"
  by (simp add: replace_def re_search_anchored)

lemma bind_arg_eq:
  "bind_arg p = (if prefix ''python:'' p then drop 7 p else p)"
proof -
  have "bind_arg p = replace p (Bol # map Lit ''python:'') []"
    by (simp only: bind_arg_def python_prefix_re_def)
  also have "\<dots> = (if prefix ''python:'' p then [] @ drop (length ''python:'') p else p)"
    by (rule replace_anchored)
  finally show ?thesis by (simp add: eval_nat_numeral)
qed

lemma bind_arg_strip: "bind_arg (''python:'' @ m) = m"
proof -
  have "prefix ''python:'' (''python:'' @ m)" by (rule prefixI) simp
  then show ?thesis unfolding bind_arg_eq by simp
qed

lemma dot_star_matches: "re_match [Dot_star] b s \<noteq> None"
  by (induction s arbitrary: b) (auto split: option.splits)

lemma any_path_re_accepts: "re_test any_path_re s"
  by (cases s) (simp_all add: re_test_def any_path_re_def dot_star_matches split: option.splits)

section \<open>Properties of the generated text\<close>

lemma contents_onLoad:
  "contents (onLoad args) = template_head @ bind_arg (path args) @ template_tail"
  by (simp add: onLoad_def)

lemma contents_onLoad_python:
  "contents (onLoad \<lparr> path = ''python:'' @ m \<rparr>) = template_head @ m @ template_tail"
  by (simp only: contents_onLoad hook_args.select_convs bind_arg_strip)

lemma template_head_split:
  "template_head =
     ''\<newline>          '' @ import_stmt @ ''\<newline>\<newline>          const module = pymport('' @ [CHR 0x27]"
  by (simp add: template_head_def import_stmt_def)

lemma template_tail_split:
  "template_tail = [CHR 0x27] @ '');\<newline>          '' @ default_export_stmt @ ''\<newline>        ''"
  by (simp add: template_tail_def default_export_stmt_def)

lemma import_in_text: "sublist import_stmt (template_head @ m @ template_tail)"
proof -
  have "template_head @ m @ template_tail =
          ''\<newline>          '' @ import_stmt
          @ (''\<newline>\<newline>          const module = pymport('' @ [CHR 0x27] @ m @ template_tail)"
    by (simp add: template_head_split)
  then show ?thesis by (simp only: sublist_appendI)
qed

lemma bind_call_in_text: "sublist (bind_call m) (template_head @ m @ template_tail)"
proof -
  have "template_head @ m @ template_tail =
          ''\<newline>          '' @ import_stmt @ ''\<newline>\<newline>          const module = ''
          @ bind_call m
          @ '';\<newline>          '' @ default_export_stmt @ ''\<newline>        ''"
    by (simp add: template_head_split template_tail_split bind_call_def)
  then have "template_head @ m @ template_tail =
          (''\<newline>          '' @ import_stmt @ ''\<newline>\<newline>          const module = '')
          @ bind_call m
          @ ('';\<newline>          '' @ default_export_stmt @ ''\<newline>        '')"
    by simp
  then show ?thesis by (simp only: sublist_appendI)
qed

lemma default_export_at_end:
  "suffix (default_export_stmt @ ''\<newline>        '') (template_head @ m @ template_tail)"
proof -
  have "template_head @ m @ template_tail =
          (template_head @ m @ [CHR 0x27] @ '');\<newline>          '')
          @ (default_export_stmt @ ''\<newline>        '')"
    by (simp add: template_tail_split)
  then show ?thesis by (simp only: suffix_appendI suffix_order.refl)
qed

lemma count_exports_head:
  "count_exports In_code (template_head @ xs) = count_exports In_string xs"
  by (simp add: template_head_def is_line_terminator_def)

lemma count_exports_literal:
  "literal_safe m \<Longrightarrow> count_exports In_string (m @ rest) = count_exports In_string rest"
  by (induction m) (simp_all add: literal_safe_def)

lemma count_exports_tail: "count_exports In_string template_tail = Some 1"
  by (simp add: template_tail_def is_line_terminator_def)

lemma export_count_safe:
  "literal_safe m \<Longrightarrow> export_count (template_head @ m @ template_tail) = Some 1"
  by (simp add: export_count_def count_exports_head count_exports_literal count_exports_tail)

lemma not_prefix_case_variant:
  assumes "take 7 p \<noteq> ''python:''"
  shows "\<not> prefix ''python:'' p"
proof
  assume "prefix ''python:'' p"
  then obtain zs where "p = ''python:'' @ zs" by (auto simp: prefix_def)
  then have "take 7 p = ''python:''" by simp
  with assms show False by simp
qed

section \<open>The claims\<close>

text \<open>
  C1 (as amended).  For every module name \<open>m\<close> without the namespace separator, the text
  generated for \<open>python:m\<close> is the template around \<open>m\<close>, verbatim: it contains the import
  of \<open>pymport\<close> and \<open>proxify\<close> from \<open>'pymport'\<close> and the bind call \<open>pymport('m')\<close>, and
  it ends with the default export of the wrapped module.  When \<open>m\<close> has no quote, no
  backslash and no line terminator, that default export is the only export of the
  text.
\<close>

theorem onLoad_generated_module:
  assumes "CHR '':'' \<notin> set m"
  shows "contents (onLoad \<lparr> path = ''python:'' @ m \<rparr>) = template_head @ m @ template_tail
       \<and> sublist import_stmt (contents (onLoad \<lparr> path = ''python:'' @ m \<rparr>))
       \<and> sublist (bind_call m) (contents (onLoad \<lparr> path = ''python:'' @ m \<rparr>))
       \<and> suffix (default_export_stmt @ ''\<newline>        '')
            (contents (onLoad \<lparr> path = ''python:'' @ m \<rparr>))
       \<and> (literal_safe m \<longrightarrow>
            export_count (contents (onLoad \<lparr> path = ''python:'' @ m \<rparr>)) = Some 1)"
proof -
  have shape: "contents (onLoad \<lparr> path = ''python:'' @ m \<rparr>) = template_head @ m @ template_tail"
    by (rule contents_onLoad_python)
  show ?thesis
    unfolding shape
    using import_in_text [of m] bind_call_in_text [of m] default_export_at_end [of m]
      export_count_safe [of m]
    by blast
qed

theorem onLoad_generated_module_witness:
  "CHR '':'' \<notin> set ''numpy'' \<and> literal_safe ''numpy''
   \<and> contents (onLoad \<lparr> path = ''python:numpy'' \<rparr>) =
       ''\<newline>          import { pymport, proxify } from 'pymport';\<newline>\<newline>          const module = pymport('numpy');\<newline>          export default proxify(module);\<newline>        ''
   \<and> export_count (contents (onLoad \<lparr> path = ''python:numpy'' \<rparr>)) = Some 1"
proof -
  have sep: "CHR '':'' \<notin> set ''numpy''" by simp
  have safe: "literal_safe ''numpy''" by (simp add: literal_safe_def is_line_terminator_def)
  note gen = onLoad_generated_module [OF sep]
  have shape: "contents (onLoad \<lparr> path = ''python:numpy'' \<rparr>) =
       ''\<newline>          import { pymport, proxify } from 'pymport';\<newline>\<newline>          const module = pymport('numpy');\<newline>          export default proxify(module);\<newline>        ''"
    using gen by (simp add: template_head_def template_tail_def)
  have "export_count (contents (onLoad \<lparr> path = ''python:'' @ ''numpy'' \<rparr>)) = Some 1"
    using gen safe by blast
  then have one: "export_count (contents (onLoad \<lparr> path = ''python:numpy'' \<rparr>)) = Some 1"
    by simp
  from sep safe shape one show ?thesis by (intro conjI)
qed

text \<open>
  C1 as the specification states it, with no condition on quotes, fails: the module
  name \<open>a');export const x=1;pymport('b\<close> has no separator, closes the string literal
  and brings a second export into the generated text.
\<close>

theorem onLoad_second_export:
  "CHR '':'' \<notin> set ''a');export const x=1;pymport('b''
   \<and> contents (onLoad \<lparr> path = ''python:a');export const x=1;pymport('b'' \<rparr>) =
       ''\<newline>          import { pymport, proxify } from 'pymport';\<newline>\<newline>          const module = pymport('a');export const x=1;pymport('b');\<newline>          export default proxify(module);\<newline>        ''
   \<and> export_count (contents (onLoad \<lparr> path = ''python:a');export const x=1;pymport('b'' \<rparr>))
       = Some 2"
  by (simp add: onLoad_def bind_arg_eq template_head_def template_tail_def export_count_def
        is_line_terminator_def)

text \<open>
  C2.  For every specifier \<open>s\<close> that the host hands to the resolve callback, the result
  has \<open>s\<close> itself as its path and \<open>python\<close> as its namespace.  The callback has no
  failing branch and looks at nothing but the path; it is registered under the
  namespace \<open>python\<close> with a filter that accepts every string.
\<close>

theorem onResolve_passthrough:
  "onResolve (args \<lparr> path := s \<rparr>) = \<lparr> res_path = s, namespace = ''python'' \<rparr>
   \<and> res_path (onResolve \<lparr> path = s \<rparr>) = s
   \<and> namespace (onResolve \<lparr> path = s \<rparr>) = ''python''
   \<and> resolve_hooks (setup_cb build) =
       resolve_hooks build
       @ [(\<lparr> filter_re = any_path_re, hook_namespace = ''python'' \<rparr>, onResolve)]
   \<and> re_test any_path_re s"
  by (simp add: onResolve_def setup_cb_def build_onResolve_def build_onLoad_def
        any_path_re_accepts)

text \<open>
  C3.  The module name that the load callback puts into the bind call is the path
  without a leading \<open>python:\<close>: the prefix is removed when the path starts with it, and
  only there and only once.  A path that starts with \<open>python:python:\<close> keeps the second
  prefix; a path that does not start with \<open>python:\<close> is passed on unchanged.
\<close>

theorem bind_arg_strips_once:
  "bind_arg p = (if prefix ''python:'' p then drop 7 p else p)
   \<and> bind_arg (''python:python:'' @ r) = ''python:'' @ r
   \<and> bind_arg (''x'' @ ''python:'' @ r) = ''x'' @ ''python:'' @ r
   \<and> contents (onLoad \<lparr> path = p \<rparr>) =
       template_head @ (if prefix ''python:'' p then drop 7 p else p) @ template_tail"
  by (simp add: contents_onLoad bind_arg_eq)

text \<open>
  C5.  For the specifier \<open>python:foo.bar\<close> the module name handed to the bind call is
  \<open>foo.bar\<close>; more generally the name that follows the prefix comes back as it is,
  dots included.
\<close>

theorem bind_arg_roundtrip:
  "bind_arg ''python:foo.bar'' = ''foo.bar''
   \<and> bind_arg (''python:'' @ m) = m
   \<and> contents (onLoad \<lparr> path = ''python:foo.bar'' \<rparr>) =
       ''\<newline>          import { pymport, proxify } from 'pymport';\<newline>\<newline>          const module = pymport('foo.bar');\<newline>          export default proxify(module);\<newline>        ''"
proof -
  have strip: "bind_arg (''python:'' @ m) = m" for m
    by (rule bind_arg_strip)
  have name: "bind_arg ''python:foo.bar'' = ''foo.bar''"
    using strip [of "''foo.bar''"] by simp
  have gen: "contents (onLoad \<lparr> path = ''python:foo.bar'' \<rparr>) =
       ''\<newline>          import { pymport, proxify } from 'pymport';\<newline>\<newline>          const module = pymport('foo.bar');\<newline>          export default proxify(module);\<newline>        ''"
    by (simp add: contents_onLoad name template_head_def template_tail_def)
  from name strip gen show ?thesis by (intro conjI)
qed

text \<open>
  C6.  The specifier \<open>python:\<close>, with nothing after the prefix, is not rejected: the load
  callback returns the template with the empty module name in the bind call,
  \<open>pymport('')\<close>.
\<close>

theorem onLoad_empty_remainder:
  "bind_arg ''python:'' = []
   \<and> onLoad \<lparr> path = ''python:'' \<rparr> =
       \<lparr> contents =
           ''\<newline>          import { pymport, proxify } from 'pymport';\<newline>\<newline>          const module = pymport(''
           @ [CHR 0x27, CHR 0x27]
           @ '');\<newline>          export default proxify(module);\<newline>        '',
         loader = ''js'' \<rparr>
   \<and> sublist (bind_call []) (contents (onLoad \<lparr> path = ''python:'' \<rparr>))"
proof -
  have name: "bind_arg ''python:'' = []"
    using bind_arg_strip [of "[]"] by simp
  have gen: "contents (onLoad \<lparr> path = ''python:'' \<rparr>) = template_head @ [] @ template_tail"
    by (simp add: contents_onLoad name)
  have sub: "sublist (bind_call []) (contents (onLoad \<lparr> path = ''python:'' \<rparr>))"
    unfolding gen by (rule bind_call_in_text)
  have rec: "onLoad \<lparr> path = ''python:'' \<rparr> =
       \<lparr> contents =
           ''\<newline>          import { pymport, proxify } from 'pymport';\<newline>\<newline>          const module = pymport(''
           @ [CHR 0x27, CHR 0x27]
           @ '');\<newline>          export default proxify(module);\<newline>        '',
         loader = ''js'' \<rparr>"
    by (simp add: onLoad_def name template_head_def template_tail_def)
  from name rec sub show ?thesis by (intro conjI)
qed



text \<open>
  C8.  For every path the record returned by the load callback carries the loader
  \<open>js\<close>: the generated text is handed to the host as script, not under one of the
  loaders for data assets.  The callback is registered as the load hook of the
  namespace \<open>python\<close>.
\<close>

theorem onLoad_loader_js:
  "loader (onLoad args) = ''js''
   \<and> loader (onLoad args) \<notin> set data_loaders
   \<and> load_hooks (setup_cb build) =
       load_hooks build
       @ [(\<lparr> filter_re = any_path_re, hook_namespace = ''python'' \<rparr>, onLoad)]"
  by (simp add: onLoad_def data_loaders_def setup_cb_def build_onLoad_def build_onResolve_def)

text \<open>
  C9.  Both callbacks return a result for every path, the empty string and paths
  without the prefix included.  The filter \<open>/.*/\<close> accepts every path; the search for
  \<open>/^python:/\<close> ends for every path, with a match at index 0 or with none, and the
  replacement handles both; the results are the records below.
\<close>

theorem hooks_total:
  "re_test any_path_re p
   \<and> onResolve \<lparr> path = p \<rparr> = \<lparr> res_path = p, namespace = ''python'' \<rparr>
   \<and> re_search python_prefix_re True p =
       (if prefix ''python:'' p then Some ([], drop 7 p) else None)
   \<and> onLoad \<lparr> path = p \<rparr> =
       \<lparr> contents = template_head @ (if prefix ''python:'' p then drop 7 p else p) @ template_tail,
         loader = ''js'' \<rparr>
   \<and> onResolve \<lparr> path = [] \<rparr> = \<lparr> res_path = [], namespace = ''python'' \<rparr>
   \<and> onLoad \<lparr> path = [] \<rparr> = \<lparr> contents = template_head @ template_tail, loader = ''js'' \<rparr>
   \<and> onLoad \<lparr> path = ''numpy'' \<rparr> =
       \<lparr> contents = template_head @ ''numpy'' @ template_tail, loader = ''js'' \<rparr>"
proof -
  have search: "re_search python_prefix_re True p =
       (if prefix ''python:'' p then Some ([], drop 7 p) else None)"
    unfolding python_prefix_re_def
    by (simp only: re_search_anchored) (simp add: eval_nat_numeral)
  have load: "onLoad \<lparr> path = q \<rparr> =
       \<lparr> contents = template_head @ (if prefix ''python:'' q then drop 7 q else q) @ template_tail,
         loader = ''js'' \<rparr>" for q
    by (simp add: onLoad_def bind_arg_eq)
  have resolve: "onResolve \<lparr> path = q \<rparr> = \<lparr> res_path = q, namespace = ''python'' \<rparr>" for q
    by (simp add: onResolve_def)
  have empty: "onLoad \<lparr> path = [] \<rparr> = \<lparr> contents = template_head @ template_tail, loader = ''js'' \<rparr>"
    unfolding load by simp
  have bare: "onLoad \<lparr> path = ''numpy'' \<rparr> =
       \<lparr> contents = template_head @ ''numpy'' @ template_tail, loader = ''js'' \<rparr>"
    unfolding load by simp
  from any_path_re_accepts [of p] resolve [of p] search load [of p] resolve [of "[]"] empty bare
  show ?thesis by (intro conjI)
qed

text \<open>
  C10.  The prefix is matched letter for letter.  A path whose first seven characters
  are \<open>python:\<close> up to letter case but not exactly, such as \<open>Python:numpy\<close>, loses
  nothing: the whole path is the argument of the bind call in the generated text.
\<close>

theorem bind_arg_case_sensitive:
  assumes "map ascii_lower (take 7 p) = ''python:''" and "take 7 p \<noteq> ''python:''"
  shows "bind_arg p = p
       \<and> contents (onLoad \<lparr> path = p \<rparr>) = template_head @ p @ template_tail
       \<and> sublist (bind_call p) (contents (onLoad \<lparr> path = p \<rparr>))"
proof -
  have "\<not> prefix ''python:'' p"
    using assms(2) by (rule not_prefix_case_variant)
  then have name: "bind_arg p = p"
    by (simp add: bind_arg_eq)
  then have gen: "contents (onLoad \<lparr> path = p \<rparr>) = template_head @ p @ template_tail"
    by (simp add: contents_onLoad)
  have sub: "sublist (bind_call p) (contents (onLoad \<lparr> path = p \<rparr>))"
    unfolding gen by (rule bind_call_in_text)
  from name gen sub show ?thesis by (intro conjI)
qed

theorem bind_arg_case_sensitive_witness:
  "map ascii_lower (take 7 ''Python:numpy'') = ''python:''
   \<and> take 7 ''Python:numpy'' \<noteq> ''python:''
   \<and> bind_arg ''Python:numpy'' = ''Python:numpy''
   \<and> contents (onLoad \<lparr> path = ''Python:numpy'' \<rparr>) =
       ''\<newline>          import { pymport, proxify } from 'pymport';\<newline>\<newline>          const module = pymport('Python:numpy');\<newline>          export default proxify(module);\<newline>        ''"
proof -
  have tag: "map ascii_lower (take 7 ''Python:numpy'') = ''python:''"
    by (simp add: ascii_lower_def)
  have differs: "take 7 ''Python:numpy'' \<noteq> ''python:''"
    by simp
  note kept = bind_arg_case_sensitive [OF tag differs]
  have name: "bind_arg ''Python:numpy'' = ''Python:numpy''"
    using kept by blast
  have gen: "contents (onLoad \<lparr> path = ''Python:numpy'' \<rparr>) =
       ''\<newline>          import { pymport, proxify } from 'pymport';\<newline>\<newline>          const module = pymport('Python:numpy');\<newline>          export default proxify(module);\<newline>        ''"
    using kept by (simp add: template_head_def template_tail_def)
  from tag differs name gen show ?thesis by (intro conjI)
qed

end
